theory Spec2Isabelle
  imports Main
begin

section \<open>AbstractWeb3Object.js: values, collaborators and the client object\<close>

text \<open>
  The development embeds \<^verbatim>\<open>packages/web3-core-package/src/AbstractWeb3Object.js\<close>.
  A JavaScript value is either \<^verbatim>\<open>null\<close>, \<^verbatim>\<open>undefined\<close> or something else; the
  wrapper \<open>'a js\<close> keeps the two empty values apart, because the source tells them
  apart (\<^verbatim>\<open>object !== null\<close>, \<^verbatim>\<open>typeof object !== 'undefined'\<close>) and because reading a
  member of either raises a TypeError.
\<close>

datatype 'a js = Null | Undefined | Obj 'a

text \<open>
  What a call can raise. \<open>Unmodelled\<close> is no error of the code: it marks the few inputs
  on which this development makes no statement about what the code does (each is named
  where it arises).
\<close>

datatype error =
    TypeError
  | ReferenceError
  | ProviderNotFound
  | ProviderPackageNotFound
  | DuplicatedMethod string
  | ResolveError string
  | Unmodelled

text \<open>
  A transport as far as this file looks at it: whether it has a member
  \<^verbatim>\<open>clearSubscriptions\<close>, and its member \<^verbatim>\<open>subscriptions\<close> (\<open>None\<close> when the member is
  absent, \<open>Some n\<close> for an array of length \<open>n\<close>). \<open>tid\<close> is the identity of the instance.
\<close>

record transport =
  tid :: nat
  has_clearSubscriptions :: bool
  subscriptions :: "nat option"

datatype val =
    VBool bool
  | VNum int
  | VStr string
  | VArr "val js list"
  | VTransport transport
  | VObject string
  | VPackage nat
  | VFunction string

type_synonym jsval = "val js"

text \<open>
  \<open>VObject l\<close> is an object or function this file only passes on (labelled \<open>l\<close>);
  \<open>VPackage i\<close> is the client object stored at index \<open>i\<close> of \<^verbatim>\<open>extendedPackages\<close>;
  \<open>VFunction n\<close> is the function the proxy's handler returns for the method name \<open>n\<close>.

  The providers package is a collaborator: \<^verbatim>\<open>detect()\<close> and \<^verbatim>\<open>resolve(provider)\<close> are its
  code, taken here as its fields. \<^verbatim>\<open>resolve\<close> may raise.
\<close>

record providers_package =
  pp_id :: nat
  detect :: jsval
  resolve :: "jsval \<Rightarrow> error + jsval"

text \<open>Calls of collaborator code and the assignment to the slot, in the order they happen.\<close>

datatype event =
    CallClearSubscriptions transport
  | CallResolve jsval
  | AssignCurrentProvider jsval

subsection \<open>Method models and their factory\<close>

text \<open>
  One entry of \<^verbatim>\<open>extension.methods\<close>. A formatter is a function of the surrounding
  library; an absent formatter is \<open>None\<close>.
\<close>

record method_descr =
  method_name :: string
  method_call :: string
  method_params :: nat
  inputFormatters :: "(jsval \<Rightarrow> jsval) option list"
  outputFormatter :: "(jsval \<Rightarrow> jsval) option"

text \<open>
  What \<^verbatim>\<open>methodModels[name]\<close> holds: a constructor of the surrounding library (its call
  name and parameter count), or the \<^verbatim>\<open>ExtensionMethodModel\<close> constructor that \<^verbatim>\<open>extend\<close>
  builds around one \<^verbatim>\<open>method\<close>.
\<close>

datatype model_ctor =
    LibraryMethodModel string nat
  | ExtensionMethodModel method_descr

record factory =
  methodModels :: "string \<rightharpoonup> model_ctor"
  utils :: nat
  formatters :: nat

record method_model =
  rpcMethod :: string
  parametersAmount :: nat
  methodArguments :: "jsval list option"
  request :: "string \<times> nat"
  built_by :: model_ctor

text \<open>
  Modelled from the spec: the Method Model Factory (\<^verbatim>\<open>hasMethodModel\<close>, \<^verbatim>\<open>createMethodModel\<close>
  and its constructor) is not in this file. \<^verbatim>\<open>hasMethodModel(name)\<close> is a pure lookup in the
  table of registered models.
\<close>

definition hasMethodModel :: "factory \<Rightarrow> string \<Rightarrow> bool" where
  "hasMethodModel f name = (case methodModels f name of None \<Rightarrow> False | Some _ \<Rightarrow> True)"

fun ctor_call :: "model_ctor \<Rightarrow> string \<times> nat" where
  "ctor_call (LibraryMethodModel c n) = (c, n)"
| "ctor_call (ExtensionMethodModel m) = (method_call m, method_params m)"

text \<open>
  Modelled from the spec: \<^verbatim>\<open>createMethodModel(name)\<close> returns a fresh method model made by
  the registered constructor, with no invocation arguments yet; its \<^verbatim>\<open>request\<close> member is
  the call shape. It is only called for a name that has a model.
\<close>

definition createMethodModel :: "factory \<Rightarrow> string \<Rightarrow> error + method_model" where
  "createMethodModel f name =
     (case methodModels f name of
        None \<Rightarrow> Inl TypeError
      | Some k \<Rightarrow>
          Inr \<lparr>rpcMethod = fst (ctor_call k), parametersAmount = snd (ctor_call k),
               methodArguments = None, request = ctor_call k, built_by = k\<rparr>)"

text \<open>
  Factories are objects that several clients may hold, and \<^verbatim>\<open>extend\<close> writes into one
  of them; so they live in a store, and a client holds the address of its factory.
  The addresses below \<open>used\<close> are the ones in use.
\<close>

record heap =
  used :: nat
  factory_at :: "nat \<Rightarrow> factory"

text \<open>
  Modelled from the spec: \<^verbatim>\<open>new MethodModelFactory(utils, formatters)\<close> makes a new factory
  object that shares the utilities and has no registered model. The result is the address
  of the new object and the store with it.
\<close>

definition new_factory :: "heap \<Rightarrow> nat \<Rightarrow> nat \<Rightarrow> nat \<times> heap" where
  "new_factory h u fm =
     (used h,
      h\<lparr>used := Suc (used h),
        factory_at := (factory_at h)(used h := \<lparr>methodModels = Map.empty, utils = u, formatters = fm\<rparr>)\<rparr>)"

subsection \<open>The client object\<close>

text \<open>
  The object the constructor builds. \<open>currentProvider_var\<close> is the constructor's local
  variable \<^verbatim>\<open>currentProvider\<close> (line 60), which the accessors of the member
  \<^verbatim>\<open>currentProvider\<close> close over. \<open>BatchRequest_pkg\<close> is \<open>Some p\<close> when the member
  \<^verbatim>\<open>BatchRequest\<close> was defined, \<open>p\<close> being the package it closes over. \<open>members\<close> holds the
  own members assigned from outside the constructor (name spaces, \<^verbatim>\<open>accounts\<close>, ...): \<open>None\<close>
  for a name that was never assigned, \<open>Some Undefined\<close> for a member that holds
  \<^verbatim>\<open>undefined\<close>. \<open>proxied\<close> says that lines 85-94 ran: the members \<^verbatim>\<open>methodModelFactory\<close> and
  \<^verbatim>\<open>methodController\<close> were assigned, and what \<^verbatim>\<open>new\<close> returned, and every caller holds, is
  the Proxy around the object.
\<close>

datatype client = Client
  (currentProvider_var: jsval)
  (providersPackage: "providers_package js")
  (givenProvider: jsval)
  (methodController: "nat js")
  (methodModelFactory: "nat js")
  (BatchRequest_pkg: "nat js option")
  (extendedPackages: "client list")
  (members: "string \<rightharpoonup> jsval")
  (proxied: bool)

text \<open>Lines 106-108: \<^verbatim>\<open>return object !== null || typeof object !== 'undefined';\<close>\<close>

fun isDependencyGiven :: "'a js \<Rightarrow> bool" where
  "isDependencyGiven object = (object \<noteq> Null \<or> object \<noteq> Undefined)"

text \<open>
  The constructor, lines 34-95. Line 51 assigns \<^verbatim>\<open>this.currentProvider = provider\<close> while
  the member is still an ordinary data member; line 60 declares the local variable with
  \<^verbatim>\<open>null\<close>; line 65 redefines the member as an accessor over that variable, which drops the
  value of line 51: nothing reads \<open>assigned_on_line_51\<close> any more, and the object is built
  with the variable. \<^verbatim>\<open>this.providersPackage.detect()\<close> reads a member of the package and
  raises a TypeError when the package is \<^verbatim>\<open>null\<close> or \<^verbatim>\<open>undefined\<close>.
\<close>

definition construct ::
  "jsval \<Rightarrow> providers_package js \<Rightarrow> nat js \<Rightarrow> nat js \<Rightarrow> nat js \<Rightarrow> error + client" where
  "construct provider providersPackage' methodController' methodModelFactory' batchRequestPackage =
     (if \<not> isDependencyGiven provider then Inl ProviderNotFound
      else if \<not> isDependencyGiven providersPackage' then Inl ProviderPackageNotFound
      else
        (case providersPackage' of
           Null \<Rightarrow> Inl TypeError
         | Undefined \<Rightarrow> Inl TypeError
         | Obj pp \<Rightarrow>
             (let assigned_on_line_51 = provider;
                  currentProvider = Null;
                  batch = (if isDependencyGiven batchRequestPackage
                           then Some batchRequestPackage else None)
              in if isDependencyGiven methodModelFactory' \<and> isDependencyGiven methodController'
                 then Inr (Client currentProvider (Obj pp) (detect pp)
                             methodController' methodModelFactory' batch [] Map.empty True)
                 else Inr (Client currentProvider (Obj pp) (detect pp)
                             Undefined Undefined batch [] Map.empty False))))"

text \<open>The getter of \<^verbatim>\<open>currentProvider\<close>, lines 66-68.\<close>

definition currentProvider_get :: "client \<Rightarrow> jsval" where
  "currentProvider_get c = currentProvider_var c"

subsection \<open>Reading a member of the object\<close>

text \<open>
  The string-named members an object inherits: those of \<^verbatim>\<open>AbstractWeb3Object.prototype\<close>
  and those of \<^verbatim>\<open>Object.prototype\<close>.
\<close>

definition prototype_members :: "string list" where
  "prototype_members =
     [''isDependencyGiven'', ''setProvider'', ''clearSubscriptions'', ''extend'',
      ''proxyHandler'', ''constructor'', ''hasOwnProperty'', ''isPrototypeOf'',
      ''propertyIsEnumerable'', ''toLocaleString'', ''toString'', ''valueOf'',
      ''__proto__'', ''__defineGetter__'', ''__defineSetter__'', ''__lookupGetter__'',
      ''__lookupSetter__'']"

text \<open>The own members the constructor defines, lines 49-94.\<close>

definition constructor_members :: "string list" where
  "constructor_members =
     [''extendedPackages'', ''providersPackage'', ''currentProvider'', ''givenProvider'',
      ''providers'', ''BatchRequest'', ''methodModelFactory'', ''methodController'']"

fun as_member :: "string \<Rightarrow> 'a js \<Rightarrow> jsval" where
  "as_member l Null = Null"
| "as_member l Undefined = Undefined"
| "as_member l (Obj x) = Obj (VObject l)"

text \<open>
  \<^verbatim>\<open>target[name]\<close> on the object itself (not through the proxy): the members the
  constructor defines, then the inherited ones, then the own members assigned from
  outside. The names of the first two kinds are never keys of \<open>members\<close>: what an
  assignment over one of them does is not modelled (see \<^verbatim>\<open>extend\<close>).
\<close>

definition target_get :: "client \<Rightarrow> string \<Rightarrow> jsval" where
  "target_get target name =
     (if name = ''currentProvider'' then currentProvider_get target
      else if name = ''extendedPackages'' then Obj (VObject ''extendedPackages'')
      else if name = ''providersPackage'' then as_member name (providersPackage target)
      else if name = ''givenProvider'' then givenProvider target
      else if name = ''providers'' then Obj (VObject ''providers'')
      else if name = ''BatchRequest'' then
        (case BatchRequest_pkg target of None \<Rightarrow> Undefined | Some p \<Rightarrow> Obj (VObject name))
      else if name = ''methodModelFactory'' then as_member name (methodModelFactory target)
      else if name = ''methodController'' then as_member name (methodController target)
      else if name \<in> set prototype_members then Obj (VObject name)
      else (case members target name of None \<Rightarrow> Undefined | Some v \<Rightarrow> v))"

text \<open>
  Whether the object has an own member of that name, whatever it holds: the members of
  lines 49-77 always, \<^verbatim>\<open>BatchRequest\<close> when line 80 ran, \<^verbatim>\<open>methodModelFactory\<close> and
  \<^verbatim>\<open>methodController\<close> when lines 86-87 ran, and the members assigned from outside.
\<close>

definition own_member :: "client \<Rightarrow> string \<Rightarrow> bool" where
  "own_member target name =
     (if name \<in> set [''extendedPackages'', ''providersPackage'', ''currentProvider'',
                       ''givenProvider'', ''providers'']
      then True
      else if name = ''BatchRequest'' then (case BatchRequest_pkg target of None \<Rightarrow> False | Some p \<Rightarrow> True)
      else if name = ''methodModelFactory'' \<or> name = ''methodController'' then proxied target
      else if name \<in> set prototype_members then False
      else (case members target name of None \<Rightarrow> False | Some v \<Rightarrow> True))"

subsection \<open>The proxy's get handler\<close>

text \<open>
  What a read through the proxy gives: a plain member, or the function of lines 223-227
  with its two attributes \<^verbatim>\<open>methodModel\<close> and \<^verbatim>\<open>request\<close>.
\<close>

datatype accessed =
    Member jsval
  | AnonymousFunction (af_methodModel: method_model) (af_request: "string \<times> nat")

text \<open>
  \<^verbatim>\<open>proxyHandler(target, name)\<close>, lines 215-236. The second and third component are the
  store and the object afterwards: the handler assigns nothing.
\<close>

definition proxyHandler :: "heap \<Rightarrow> client \<Rightarrow> string \<Rightarrow> (error + accessed) \<times> heap \<times> client" where
  "proxyHandler h target name =
     (case methodModelFactory target of
        Null \<Rightarrow> (Inl TypeError, h, target)
      | Undefined \<Rightarrow> (Inl TypeError, h, target)
      | Obj a \<Rightarrow>
          if hasMethodModel (factory_at h a) name then
            (if target_get target name \<noteq> Undefined
             then (Inl (DuplicatedMethod name), h, target)
             else
               (case createMethodModel (factory_at h a) name of
                  Inl e \<Rightarrow> (Inl e, h, target)
                | Inr methodModel \<Rightarrow>
                    (Inr (AnonymousFunction methodModel (request methodModel)), h, target)))
          else (Inr (Member (target_get target name)), h, target))"


text \<open>
  Inside the methods and the setter, \<^verbatim>\<open>this\<close> is what the caller holds: the Proxy when
  the object is proxied, so that \<^verbatim>\<open>this.name\<close> is answered by the handler, and the object
  itself otherwise.
\<close>

definition this_read :: "heap \<Rightarrow> client \<Rightarrow> string \<Rightarrow> error + accessed" where
  "this_read h this name =
     (if proxied this then fst (proxyHandler h this name)
      else Inr (Member (target_get this name)))"

text \<open>The value such a read gives, when it is passed on as an argument.\<close>

fun as_value :: "string \<Rightarrow> error + accessed \<Rightarrow> error + jsval" where
  "as_value name (Inl e) = Inl e"
| "as_value name (Inr (Member v)) = Inr v"
| "as_value name (Inr (AnonymousFunction m r)) = Inr (Obj (VFunction name))"

subsection \<open>The setter of currentProvider\<close>

fun set_currentProvider_var :: "client \<Rightarrow> jsval \<Rightarrow> client" where
  "set_currentProvider_var (Client cp pp gp mc mmf br eps ms px) v =
     Client v pp gp mc mmf br eps ms px"

text \<open>
  The test of line 70 on the value held, \<^verbatim>\<open>typeof currentProvider.clearSubscriptions !==
  'undefined' && currentProvider.subscriptions.length > 0\<close>: reading a member of \<^verbatim>\<open>null\<close> or
  \<^verbatim>\<open>undefined\<close> raises, as does reading \<^verbatim>\<open>length\<close> of an absent \<^verbatim>\<open>subscriptions\<close>; a value
  that is no transport has neither member. The result is the transport whose
  \<^verbatim>\<open>clearSubscriptions\<close> line 71 calls, if the test holds.
\<close>

fun to_clear :: "jsval \<Rightarrow> error + transport option" where
  "to_clear Null = Inl TypeError"
| "to_clear Undefined = Inl TypeError"
| "to_clear (Obj (VTransport t)) =
     (if has_clearSubscriptions t
      then (case subscriptions t of
              None \<Rightarrow> Inl TypeError
            | Some n \<Rightarrow> Inr (if n > 0 then Some t else None))
      else Inr None)"
| "to_clear (Obj v) = Inr None"

fun clear_calls :: "transport option \<Rightarrow> event list" where
  "clear_calls None = []"
| "clear_calls (Some t) = [CallClearSubscriptions t]"

text \<open>
  The setter, lines 69-75. The result is the object afterwards, the collaborator calls
  and the assignment in order, and the error raised, if any. \<^verbatim>\<open>clearSubscriptions\<close> is the
  transport's own code: its call is recorded, what it does to the transport is not part
  of this file. On line 74 \<^verbatim>\<open>this.providersPackage\<close> is a read through \<^verbatim>\<open>this\<close>; where the
  handler answers it with a function, that function has no member \<^verbatim>\<open>resolve\<close> to call.
\<close>

definition currentProvider_set ::
  "heap \<Rightarrow> client \<Rightarrow> jsval \<Rightarrow> client \<times> event list \<times> error option" where
  "currentProvider_set h c provider =
     (case to_clear (currentProvider_var c) of
        Inl e \<Rightarrow> (c, [], Some e)
      | Inr old \<Rightarrow>
          (case this_read h c ''providersPackage'' of
             Inl e \<Rightarrow> (c, clear_calls old, Some e)
           | Inr (AnonymousFunction m r) \<Rightarrow> (c, clear_calls old, Some TypeError)
           | Inr (Member v) \<Rightarrow>
               (case providersPackage c of
                  Null \<Rightarrow> (c, clear_calls old, Some TypeError)
                | Undefined \<Rightarrow> (c, clear_calls old, Some TypeError)
                | Obj pp \<Rightarrow>
                    (case resolve pp provider of
                       Inl e \<Rightarrow> (c, clear_calls old @ [CallResolve provider], Some e)
                     | Inr r \<Rightarrow>
                         (set_currentProvider_var c r,
                          clear_calls old @ [CallResolve provider, AssignCurrentProvider r],
                          None)))))"

subsection \<open>setProvider\<close>

fun with_extendedPackages :: "client \<Rightarrow> client list \<Rightarrow> client" where
  "with_extendedPackages (Client cp pp gp mc mmf br eps ms px) eps' =
     Client cp pp gp mc mmf br eps' ms px"

text \<open>
  \<^verbatim>\<open>setProvider(provider)\<close>, lines 117-127: the assignment runs the setter; then
  \<^verbatim>\<open>this.extendedPackages\<close> is read, and for each extended package, in the order of the
  list, \<^verbatim>\<open>extendedPackage.setProvider\<close> is read through that package's proxy, then
  \<^verbatim>\<open>self.currentProvider\<close> through this object's, and the package's \<^verbatim>\<open>setProvider\<close> is
  called with that value. \<^verbatim>\<open>self.currentProvider\<close> is read anew for every package, but
  nothing changes this object in between, so \<open>arg\<close> stands for the outcome of each of
  these reads. \<^verbatim>\<open>forEach\<close> stops at the first package that raises; what was assigned
  before stays assigned. \<^verbatim>\<open>setProvider\<close> is an inherited member, so the handler never
  answers that read with a function of its own.
\<close>

fun setProvider :: "heap \<Rightarrow> client \<Rightarrow> jsval \<Rightarrow> client \<times> event list \<times> error option"
  and setProvider_forEach ::
    "heap \<Rightarrow> client list \<Rightarrow> error + jsval \<Rightarrow> client list \<times> event list \<times> error option"
where
  "setProvider h (Client cp pp gp mc mmf br eps ms px) provider =
     (case currentProvider_set h (Client cp pp gp mc mmf br eps ms px) provider of
        (self, evs, Some e) \<Rightarrow> (self, evs, Some e)
      | (self, evs, None) \<Rightarrow>
          (case this_read h self ''extendedPackages'' of
             Inl e \<Rightarrow> (self, evs, Some e)
           | Inr extendedPackages_read \<Rightarrow>
               if length eps > 0 then
                 (case setProvider_forEach h eps
                         (as_value ''currentProvider'' (this_read h self ''currentProvider'')) of
                    (eps', evs', err) \<Rightarrow> (with_extendedPackages self eps', evs @ evs', err))
               else (self, evs, None)))"
| "setProvider_forEach h [] arg = ([], [], None)"
| "setProvider_forEach h (extendedPackage # rest) arg =
     (case this_read h extendedPackage ''setProvider'' of
        Inl e \<Rightarrow> (extendedPackage # rest, [], Some e)
      | Inr setProvider_read \<Rightarrow>
          (case arg of
             Inl e \<Rightarrow> (extendedPackage # rest, [], Some e)
           | Inr provider \<Rightarrow>
               (case setProvider h extendedPackage provider of
                  (extendedPackage', evs, Some e) \<Rightarrow> (extendedPackage' # rest, evs, Some e)
                | (extendedPackage', evs, None) \<Rightarrow>
                    (case setProvider_forEach h rest arg of
                       (rest', evs', err) \<Rightarrow> (extendedPackage' # rest', evs @ evs', err)))))"

subsection \<open>extend\<close>

text \<open>
  The argument of \<^verbatim>\<open>extend\<close>: \<^verbatim>\<open>extension.property\<close> and \<^verbatim>\<open>extension.methods\<close>, each
  \<open>None\<close> when absent.
\<close>

record extension =
  property :: "string option"
  methods :: "method_descr list option"

text \<open>Line 148, \<^verbatim>\<open>extension.property || false\<close>: an empty string is falsy as well.\<close>

fun namespace_of :: "extension \<Rightarrow> string option" where
  "namespace_of extension =
     (case property extension of
        None \<Rightarrow> None
      | Some n \<Rightarrow> if n = [] then None else Some n)"

text \<open>
  Lines 152-157, the expression \<^verbatim>\<open>new this.constructor(this.provider,
  this.providersPackage, this.methodController, new this.methodModelFactory.constructor(
  this.methodModelFactory.utils, this.methodModelFactory.formatters))\<close>: five members are
  read through \<^verbatim>\<open>this\<close> in this order, the new factory is made, and the constructor of
  this file is called with four arguments, so the fifth is \<^verbatim>\<open>undefined\<close>.
  Where the handler answers \<^verbatim>\<open>this.providersPackage\<close> with a function, line 52 of the
  constructor finds no \<^verbatim>\<open>detect\<close> on it and raises. Where it answers
  \<^verbatim>\<open>this.methodController\<close> or \<^verbatim>\<open>this.methodModelFactory\<close> with a function, the development
  makes no statement.
\<close>

definition new_object :: "heap \<Rightarrow> client \<Rightarrow> heap \<times> (error + client)" where
  "new_object h this =
     (case this_read h this ''constructor'' of
        Inl e \<Rightarrow> (h, Inl e)
      | Inr constructor_read \<Rightarrow>
     (case as_value ''provider'' (this_read h this ''provider'') of
        Inl e \<Rightarrow> (h, Inl e)
      | Inr provider \<Rightarrow>
     (case this_read h this ''providersPackage'' of
        Inl e \<Rightarrow> (h, Inl e)
      | Inr package_read \<Rightarrow>
     (case this_read h this ''methodController'' of
        Inl e \<Rightarrow> (h, Inl e)
      | Inr controller_read \<Rightarrow>
     (case this_read h this ''methodModelFactory'' of
        Inl e \<Rightarrow> (h, Inl e)
      | Inr (AnonymousFunction m r) \<Rightarrow> (h, Inl Unmodelled)
      | Inr (Member factory_member) \<Rightarrow>
          (case methodModelFactory this of
             Null \<Rightarrow> (h, Inl TypeError)
           | Undefined \<Rightarrow> (h, Inl TypeError)
           | Obj a \<Rightarrow>
               (case new_factory h (utils (factory_at h a)) (formatters (factory_at h a)) of
                  (a', h') \<Rightarrow>
                    (case package_read of
                       AnonymousFunction m r \<Rightarrow> (h', Inl TypeError)
                     | Member package_member \<Rightarrow>
                         (case controller_read of
                            AnonymousFunction m r \<Rightarrow> (h', Inl Unmodelled)
                          | Member controller_member \<Rightarrow>
                              (h', construct provider (providersPackage this)
                                     (methodController this) (Obj a') Undefined))))))))))"

text \<open>
  Lines 165-201 for the methods of the list in order. Line 198 reads the identifier
  \<^verbatim>\<open>AbstractMethodModel\<close>, which this file does not declare: \<open>bound\<close> says whether the host
  binds it (to the constructor of the surrounding library), and without a binding the
  first method raises a ReferenceError before anything is registered. Line 200 reads \<^verbatim>\<open>object.methodModelFactory\<close> through the object's
  proxy and writes \<^verbatim>\<open>methodModels[method.name] = ExtensionMethodModel\<close> into that factory.
\<close>

fun register_methods :: "bool \<Rightarrow> heap \<Rightarrow> client \<Rightarrow> method_descr list \<Rightarrow> heap \<times> error option" where
  "register_methods bound h object [] = (h, None)"
| "register_methods bound h object (method # rest) =
     (if \<not> bound then (h, Some ReferenceError)
      else
        (case this_read h object ''methodModelFactory'' of
           Inl e \<Rightarrow> (h, Some e)
         | Inr (AnonymousFunction m r) \<Rightarrow> (h, Some TypeError)
         | Inr (Member factory_member) \<Rightarrow>
             (case methodModelFactory object of
                Null \<Rightarrow> (h, Some TypeError)
              | Undefined \<Rightarrow> (h, Some TypeError)
              | Obj a \<Rightarrow>
                  register_methods bound
                    (h\<lparr>factory_at := (factory_at h)
                         (a := (factory_at h a)
                            \<lparr>methodModels := (methodModels (factory_at h a))
                               (method_name method \<mapsto> ExtensionMethodModel method)\<rparr>)\<rparr>)
                    object rest)))"

text \<open>Line 164: \<^verbatim>\<open>if (extension.methods)\<close>; an empty array is truthy, and has no step.\<close>

fun extend_methods :: "bool \<Rightarrow> heap \<Rightarrow> client \<Rightarrow> method_descr list option \<Rightarrow> heap \<times> error option" where
  "extend_methods bound h object None = (h, None)"
| "extend_methods bound h object (Some ms) = register_methods bound h object ms"

fun add_package :: "client \<Rightarrow> string \<Rightarrow> client \<Rightarrow> client" where
  "add_package (Client cp pp gp mc mmf br eps ms px) namespace object =
     Client cp pp gp mc mmf br (eps @ [object]) (ms(namespace \<mapsto> Obj (VPackage (length eps)))) px"

text \<open>
  The names for which \<^verbatim>\<open>this[namespace] = object\<close> is more than the assignment of a new
  own member: it would run the setter of \<^verbatim>\<open>currentProvider\<close>, replace a collaborator or
  the list by the new object, or shadow an inherited member.
\<close>

definition reserved :: "string \<Rightarrow> bool" where
  "reserved name = (name \<in> set constructor_members \<or> name \<in> set prototype_members)"

text \<open>
  \<^verbatim>\<open>extend(extension)\<close>, lines 147-203. With a name space, the new object is built, stored
  under the name, and pushed on \<^verbatim>\<open>this.extendedPackages\<close>; then the methods are registered
  on it. Without one the methods are registered on this object. The result is the store
  and this object afterwards and the error raised, if any: an error on line 198 or 200
  comes after the new object was stored and pushed.

  The development makes no statement (\<open>Unmodelled\<close>) for a reserved name space, and for a
  factory with a model named \<^verbatim>\<open>extendedPackages\<close>, where the read on line 159 raises after
  the assignment of line 152.
\<close>

definition extend :: "bool \<Rightarrow> heap \<Rightarrow> client \<Rightarrow> extension \<Rightarrow> heap \<times> client \<times> error option" where
  "extend bound h this extension =
     (case namespace_of extension of
        Some namespace \<Rightarrow>
          (case new_object h this of
             (h', Inl e) \<Rightarrow> (h', this, Some e)
           | (h', Inr object) \<Rightarrow>
               if reserved namespace then (h', this, Some Unmodelled)
               else
                 (case this_read h' this ''extendedPackages'' of
                    Inl e \<Rightarrow> (h', this, Some Unmodelled)
                  | Inr extendedPackages_read \<Rightarrow>
                      (case extend_methods bound h' object (methods extension) of
                         (h'', err) \<Rightarrow> (h'', add_package this namespace object, err))))
      | None \<Rightarrow>
          (case extend_methods bound h this (methods extension) of
             (h', err) \<Rightarrow> (h', this, err)))"

subsection \<open>The hooks of ExtensionMethodModel\<close>

text \<open>JavaScript's truthiness of a value, as \<^verbatim>\<open>&&\<close> tests it.\<close>

fun truthy :: "jsval \<Rightarrow> bool" where
  "truthy Null = False"
| "truthy Undefined = False"
| "truthy (Obj (VBool b)) = b"
| "truthy (Obj (VNum n)) = (n \<noteq> 0)"
| "truthy (Obj (VStr s)) = (s \<noteq> [])"
| "truthy (Obj v) = True"

text \<open>
  The function of lines 178-196 (\<^verbatim>\<open>_\<close> is taken to be bound by the surrounding library;
  without a binding line 179 raises a ReferenceError for every response). In the array
  branch an item is formatted when there is a
  formatter and the item is truthy. In the other branch the test is
  \<^verbatim>\<open>method.outputFormatter && result\<close>: no variable \<^verbatim>\<open>result\<close> is declared in the file, so
  with a formatter present the read of \<^verbatim>\<open>result\<close> raises a ReferenceError; without one the
  test stops at \<^verbatim>\<open>method.outputFormatter\<close>.
\<close>

fun afterExecution :: "method_descr \<Rightarrow> jsval \<Rightarrow> error + jsval" where
  "afterExecution method (Obj (VArr items)) =
     Inr (Obj (VArr (map (\<lambda>responseItem.
            (case outputFormatter method of
               Some format \<Rightarrow> if truthy responseItem then format responseItem else responseItem
             | None \<Rightarrow> responseItem)) items)))"
| "afterExecution method response =
     (case outputFormatter method of
        Some format \<Rightarrow> Inl ReferenceError
      | None \<Rightarrow> Inr response)"

subsection \<open>BatchRequest\<close>

text \<open>What \<^verbatim>\<open>createBatchRequest(provider)\<close> of a batch package returns: a collector made
  by that package from that provider value.\<close>

datatype batch_request = BatchRequestOf nat jsval

text \<open>
  The member \<^verbatim>\<open>BatchRequest\<close>, lines 80-82: \<^verbatim>\<open>return
  batchRequestPackage.createBatchRequest(self.currentProvider)\<close>. The constructor declares
  no variable \<^verbatim>\<open>self\<close> (only \<^verbatim>\<open>setProvider\<close> does, for itself), so the identifier is looked
  up in the host: \<open>self_currentProvider\<close> is \<open>None\<close> when the host binds no \<^verbatim>\<open>self\<close>, and
  \<open>Some v\<close> when it does and \<open>v\<close> is the \<^verbatim>\<open>currentProvider\<close> member of that global object.
\<close>

definition BatchRequest :: "jsval option \<Rightarrow> client \<Rightarrow> error + batch_request" where
  "BatchRequest self_currentProvider this =
     (case BatchRequest_pkg this of
        None \<Rightarrow> Inl TypeError
      | Some Null \<Rightarrow> Inl TypeError
      | Some Undefined \<Rightarrow> Inl TypeError
      | Some (Obj batchRequestPackage) \<Rightarrow>
          (case self_currentProvider of
             None \<Rightarrow> Inl ReferenceError
           | Some v \<Rightarrow> Inr (BatchRequestOf batchRequestPackage v)))"

subsection \<open>The objects the file can build\<close>

text \<open>
  \<open>slots_null\<close>: the variable behind \<^verbatim>\<open>currentProvider\<close> holds \<^verbatim>\<open>null\<close> in the object and
  in every extended package below it. \<open>reachable\<close>: the objects one gets from the
  constructor by \<^verbatim>\<open>extend\<close>, \<^verbatim>\<open>setProvider\<close>, assignments to \<^verbatim>\<open>currentProvider\<close> and by
  taking an extended package, whether an operation returned or raised, in any host and
  with any store.
\<close>

fun slots_null :: "client \<Rightarrow> bool" where
  "slots_null (Client cp pp gp mc mmf br eps ms px) = (cp = Null \<and> list_all slots_null eps)"

inductive reachable :: "client \<Rightarrow> bool" where
  by_construct: "construct provider pp mc mmf brp = Inr c \<Longrightarrow> reachable c"
| by_extend: "reachable c \<Longrightarrow> extend bound h c e = (h', c', err) \<Longrightarrow> reachable c'"
| by_setProvider: "reachable c \<Longrightarrow> setProvider h c q = (c', evs, err) \<Longrightarrow> reachable c'"
| by_set: "reachable c \<Longrightarrow> currentProvider_set h c q = (c', evs, err) \<Longrightarrow> reachable c'"
| by_member: "reachable c \<Longrightarrow> c' \<in> set (extendedPackages c) \<Longrightarrow> reachable c'"

section \<open>Properties\<close>

subsection \<open>Auxiliary facts\<close>

text \<open>
  With a providers package present the constructor always returns an object: both tests
  of \<^verbatim>\<open>isDependencyGiven\<close> pass for every value, and so do the tests of lines 79 and 85.
\<close>

lemma construct_given:
  "construct provider (Obj pp) mc mmf brp =
     Inr (Client Null (Obj pp) (detect pp) mc mmf (Some brp) [] Map.empty True)"
  by (cases provider; cases mc; cases mmf; cases brp) (simp_all add: construct_def)

lemma construct_slots_null: "construct provider pp mc mmf brp = Inr c \<Longrightarrow> slots_null c"
  by (auto simp: construct_def split: js.splits if_splits)

lemma construct_fields:
  assumes "construct provider pp mc mmf brp = Inr c"
  shows "providersPackage c = pp \<and> methodController c = mc \<and> methodModelFactory c = mmf \<and>
         currentProvider_var c = Null \<and> extendedPackages c = [] \<and> proxied c"
  using assms by (cases pp) (auto simp: construct_given construct_def)

lemma new_object_heap:
  assumes "new_object h this = (h1, r)"
  shows "\<forall>a. a \<noteq> used h \<longrightarrow> factory_at h1 a = factory_at h a"
  using assms unfolding new_object_def new_factory_def
  by (simp split: sum.splits js.splits accessed.splits prod.splits) auto

lemma new_object_Inr:
  assumes "new_object h this = (h1, Inr object)"
  shows "\<exists>provider a. methodModelFactory this = Obj a \<and>
           construct provider (providersPackage this) (methodController this)
            (Obj (used h)) Undefined = Inr object"
  using assms unfolding new_object_def new_factory_def
  by (simp split: sum.splits js.splits accessed.splits prod.splits) auto

lemma this_read_no_ReferenceError: "this_read h this name \<noteq> Inl ReferenceError"
  by (simp add: this_read_def proxyHandler_def createMethodModel_def hasMethodModel_def
      split: js.splits option.splits)

lemma construct_no_ReferenceError: "construct p pp mc mmf brp \<noteq> Inl ReferenceError"
  by (simp add: construct_def split: js.splits)

lemma as_value_Inl: "as_value n r = Inl e \<Longrightarrow> r = Inl e"
  by (cases "(n, r)" rule: as_value.cases) auto

lemma new_object_no_ReferenceError:
  assumes "new_object h this = (h1, Inl e)"
  shows "e \<noteq> ReferenceError"
  using assms this_read_no_ReferenceError [of h this] construct_no_ReferenceError
  unfolding new_object_def new_factory_def
  by (auto split: sum.splits js.splits accessed.splits prod.splits dest!: as_value_Inl)

lemma register_methods_frame:
  assumes "register_methods bound h object ms = (h', err)"
  shows "used h' = used h \<and>
         (\<forall>a0. methodModelFactory object \<noteq> Obj a0 \<longrightarrow> factory_at h' a0 = factory_at h a0)"
  using assms
proof (induction ms arbitrary: h)
  case Nil
  then show ?case by simp
next
  case (Cons mth rest)
  show ?case
  proof (cases "bound \<and> (\<exists>v a. this_read h object ''methodModelFactory'' = Inr (Member v) \<and>
                  methodModelFactory object = Obj a)")
    case True
    then obtain v a where b: bound
      and r: "this_read h object ''methodModelFactory'' = Inr (Member v)"
      and a: "methodModelFactory object = Obj a" by blast
    let ?h2 = "h\<lparr>factory_at := (factory_at h)
                 (a := (factory_at h a)
                    \<lparr>methodModels := (methodModels (factory_at h a))
                       (method_name mth \<mapsto> ExtensionMethodModel mth)\<rparr>)\<rparr>"
    from Cons.prems b r a have "register_methods bound ?h2 object rest = (h', err)" by simp
    from Cons.IH [OF this] a show ?thesis by auto
  next
    case False
    with Cons.prems have "h' = h"
      by (auto split: sum.splits js.splits accessed.splits if_splits)
    then show ?thesis by simp
  qed
qed

lemma register_methods_keeps:
  assumes "register_methods bound h object ms = (h', err)"
    and "hasMethodModel (factory_at h a) n"
  shows "hasMethodModel (factory_at h' a) n"
  using assms
proof (induction ms arbitrary: h)
  case Nil
  then show ?case by simp
next
  case (Cons mth rest)
  show ?case
  proof (cases "bound \<and> (\<exists>v a. this_read h object ''methodModelFactory'' = Inr (Member v) \<and>
                  methodModelFactory object = Obj a)")
    case True
    then obtain v a1 where b: bound
      and r: "this_read h object ''methodModelFactory'' = Inr (Member v)"
      and a: "methodModelFactory object = Obj a1" by blast
    let ?h2 = "h\<lparr>factory_at := (factory_at h)
                 (a1 := (factory_at h a1)
                    \<lparr>methodModels := (methodModels (factory_at h a1))
                       (method_name mth \<mapsto> ExtensionMethodModel mth)\<rparr>)\<rparr>"
    from Cons.prems(1) b r a have run: "register_methods bound ?h2 object rest = (h', err)" by simp
    have "hasMethodModel (factory_at ?h2 a) n"
      using Cons.prems(2) by (auto simp: hasMethodModel_def)
    from Cons.IH [OF run this] show ?thesis .
  next
    case False
    with Cons.prems(1) have "h' = h"
      by (auto split: sum.splits js.splits accessed.splits if_splits)
    with Cons.prems(2) show ?thesis by simp
  qed
qed

lemma register_methods_registered:
  assumes "register_methods bound h object ms = (h', None)"
    and "methodModelFactory object = Obj a" and "m \<in> set ms"
  shows "hasMethodModel (factory_at h' a) (method_name m)"
  using assms
proof (induction ms arbitrary: h)
  case Nil
  then show ?case by simp
next
  case (Cons mth rest)
  from Cons.prems(1) have b: bound by (auto split: if_splits)
  from Cons.prems(1,2) b obtain v where
    r: "this_read h object ''methodModelFactory'' = Inr (Member v)"
    by (auto split: sum.splits js.splits accessed.splits)
  let ?h2 = "h\<lparr>factory_at := (factory_at h)
               (a := (factory_at h a)
                  \<lparr>methodModels := (methodModels (factory_at h a))
                     (method_name mth \<mapsto> ExtensionMethodModel mth)\<rparr>)\<rparr>"
  from Cons.prems(1,2) b r have run: "register_methods bound ?h2 object rest = (h', None)"
    by simp
  show ?case
  proof (cases "m = mth")
    case True
    have "hasMethodModel (factory_at ?h2 a) (method_name mth)"
      by (simp add: hasMethodModel_def)
    from register_methods_keeps [OF run this] True show ?thesis by simp
  next
    case False
    with Cons.prems(3) have "m \<in> set rest" by simp
    from Cons.IH [OF run Cons.prems(2) this] show ?thesis .
  qed
qed

lemma add_package_sel:
  "methodModelFactory (add_package this ns object) = methodModelFactory this"
  "extendedPackages (add_package this ns object) = extendedPackages this @ [object]"
  "providersPackage (add_package this ns object) = providersPackage this"
  "methodController (add_package this ns object) = methodController this"
  "currentProvider_var (add_package this ns object) = currentProvider_var this"
  by (cases this; simp)+

text \<open>What a call of \<^verbatim>\<open>extend\<close> with a name space did when it got as far as line 159.\<close>

lemma extend_namespace_pushed:
  assumes "namespace_of extension = Some ns"
    and "extend bound h this extension = (h', this', err)"
    and "err = None \<or> err = Some ReferenceError"
  shows "\<exists>h1 object provider a.
           methodModelFactory this = Obj a \<and>
           new_object h this = (h1, Inr object) \<and>
           construct provider (providersPackage this) (methodController this)
             (Obj (used h)) Undefined = Inr object \<and>
           extend_methods bound h1 object (methods extension) = (h', err) \<and>
           this' = add_package this ns object"
proof -
  obtain h1 r where no: "new_object h this = (h1, r)" by (cases "new_object h this") blast
  show ?thesis
  proof (cases r)
    case (Inl e)
    with no new_object_no_ReferenceError have "e \<noteq> ReferenceError" by blast
    with assms no Inl show ?thesis by (auto simp: extend_def)
  next
    case (Inr object)
    with no new_object_Inr obtain provider a where
      c: "methodModelFactory this = Obj a"
         "construct provider (providersPackage this) (methodController this)
             (Obj (used h)) Undefined = Inr object"
      by blast
    from assms no Inr have
      "extend_methods bound h1 object (methods extension) = (h', err) \<and>
       this' = add_package this ns object"
      by (auto simp: extend_def split: if_splits sum.splits prod.splits)
    with c no Inr show ?thesis by blast
  qed
qed

lemma set_null:
  "currentProvider_var c = Null \<Longrightarrow> currentProvider_set h c q = (c, [], Some TypeError)"
  by (simp add: currentProvider_set_def)

lemma setProvider_null:
  "currentProvider_var c = Null \<Longrightarrow> setProvider h c q = (c, [], Some TypeError)"
  by (cases c) (simp add: currentProvider_set_def)

lemma slots_null_var: "slots_null c \<Longrightarrow> currentProvider_var c = Null"
  by (cases c) simp

lemma slots_null_package:
  "slots_null c \<Longrightarrow> c' \<in> set (extendedPackages c) \<Longrightarrow> slots_null c'"
  by (cases c) (simp add: list_all_iff)

lemma add_package_slots_null:
  "slots_null c \<Longrightarrow> slots_null object \<Longrightarrow> slots_null (add_package c ns object)"
  by (cases c) simp

lemma extend_slots_null:
  assumes "slots_null c" and "extend bound h c e = (h', c', err)"
  shows "slots_null c'"
proof (cases "c' = c")
  case True
  with assms show ?thesis by simp
next
  case False
  with assms(2) obtain ns h1 object where
    "new_object h c = (h1, Inr object)" and c': "c' = add_package c ns object"
    by (auto simp: extend_def split: option.splits sum.splits prod.splits if_splits)
  then have "slots_null object" using new_object_Inr construct_slots_null by blast
  with assms(1) c' show ?thesis by (simp add: add_package_slots_null)
qed

lemma reachable_slots:
  assumes "reachable c"
  shows "slots_null c"
  using assms
proof (induction rule: reachable.induct)
  case (by_construct provider pp mc mmf brp c)
  then show ?case by (rule construct_slots_null)
next
  case (by_extend c bound h e h' c' err)
  then show ?case by (blast intro: extend_slots_null)
next
  case (by_setProvider c h q c' evs err)
  then show ?case by (simp add: setProvider_null slots_null_var)
next
  case (by_set c h q c' evs err)
  then show ?case by (simp add: set_null slots_null_var)
next
  case (by_member c c')
  then show ?case by (blast intro: slots_null_package)
qed

lemma extend_namespace_frame:
  assumes "namespace_of extension = Some ns"
    and "extend bound h this extension = (h', this', err)"
    and "a \<noteq> used h"
  shows "factory_at h' a = factory_at h a"
proof -
  obtain h1 r where no: "new_object h this = (h1, r)" by (cases "new_object h this") blast
  from new_object_heap [OF no] assms(3) have h1: "factory_at h1 a = factory_at h a" by simp
  show ?thesis
  proof (cases "h' = h1")
    case True
    with h1 show ?thesis by simp
  next
    case False
    with assms(1,2) no obtain object where
      r: "r = Inr object" and
      em: "extend_methods bound h1 object (methods extension) = (h', err)"
      by (auto simp: extend_def split: sum.splits prod.splits if_splits)
    from no r new_object_Inr construct_fields have f: "methodModelFactory object = Obj (used h)"
      by blast
    have "factory_at h' a = factory_at h1 a"
    proof (cases "methods extension")
      case None
      with em show ?thesis by simp
    next
      case (Some ms)
      with em have "register_methods bound h1 object ms = (h', err)" by simp
      from register_methods_frame [OF this] f assms(3) show ?thesis by simp
    qed
    with h1 show ?thesis by simp
  qed
qed

lemma extend_keeps_factory_member:
  assumes "extend bound h this extension = (h', this', err)"
  shows "methodModelFactory this' = methodModelFactory this"
proof (cases "this' = this")
  case True
  then show ?thesis by simp
next
  case False
  with assms obtain ns object where "this' = add_package this ns object"
    by (auto simp: extend_def split: option.splits sum.splits prod.splits if_splits)
  then show ?thesis by (simp add: add_package_sel)
qed

lemmas extend_eval =
  construct_given extend_def new_object_def this_read_def proxyHandler_def
  hasMethodModel_def new_factory_def reserved_def constructor_members_def
  prototype_members_def target_get_def

subsection \<open>C1\<close>

text \<open>
  Claim C1 says that after a successful construction with an initial transport the getter
  of \<^verbatim>\<open>currentProvider\<close> returns that transport and never \<^verbatim>\<open>null\<close>. The constructor does
  otherwise: whatever transport \<open>t\<close> it is given, with a providers package present it
  succeeds and the getter of the object it returns gives \<^verbatim>\<open>null\<close>, because the accessor
  defined on line 65 reads the local variable of line 60 and the assignment of line 51 is
  dropped.
\<close>

theorem construct_currentProvider_is_null:
  "map_sum id currentProvider_get (construct (Obj (VTransport t)) (Obj pp) mc mmf brp) = Inr Null"
  by (simp add: construct_given currentProvider_get_def)

subsection \<open>C2\<close>

text \<open>
  Claim C2 says that construction fails with a missing-dependency error when the provider
  or the providers package is \<^verbatim>\<open>null\<close> or \<^verbatim>\<open>undefined\<close>. The constructor does otherwise:
  with the provider \<^verbatim>\<open>null\<close> or \<^verbatim>\<open>undefined\<close> and a providers package present it returns
  an object, and with the providers package \<^verbatim>\<open>null\<close> or \<^verbatim>\<open>undefined\<close> it raises the TypeError
  of reading \<^verbatim>\<open>detect\<close>, not the error of line 46. \<^verbatim>\<open>isDependencyGiven\<close> holds of every value.
\<close>

theorem construct_accepts_missing_provider:
  "(\<exists>c. construct Null (Obj pp) mc mmf brp = Inr c) \<and>
   (\<exists>c. construct Undefined (Obj pp) mc mmf brp = Inr c) \<and>
   construct provider Null mc mmf brp = Inl TypeError \<and>
   construct provider Undefined mc mmf brp = Inl TypeError"
  by (cases provider) (simp_all add: construct_given, simp_all add: construct_def)

subsection \<open>C3\<close>


subsection \<open>C4\<close>

text \<open>
  Claim C4 says that an access fails with the duplicated-method error whenever the
  factory has a model for the name and the object has an own member of that name. That
  is false for an own member that holds \<^verbatim>\<open>undefined\<close>: with a providers package whose
  \<^verbatim>\<open>detect()\<close> returns \<^verbatim>\<open>undefined\<close>, line 52 gives the object the own member
  \<^verbatim>\<open>givenProvider\<close> holding \<^verbatim>\<open>undefined\<close>, and with a model of that name the handler returns
  the function of lines 223-227, since line 217 tests the value of the member.
\<close>

theorem proxyHandler_member_holding_undefined_counterexample:
  "construct (Obj (VStr ''http://localhost:8545''))
     (Obj \<lparr>pp_id = 0, detect = Undefined, resolve = Inr\<rparr>) (Obj 7) (Obj 0) Undefined
   = Inr (Client Null (Obj \<lparr>pp_id = 0, detect = Undefined, resolve = Inr\<rparr>) Undefined (Obj 7)
            (Obj 0) (Some Undefined) [] Map.empty True)
   \<and> own_member
        (Client Null (Obj \<lparr>pp_id = 0, detect = Undefined, resolve = Inr\<rparr>) Undefined (Obj 7)
            (Obj 0) (Some Undefined) [] Map.empty True)
        ''givenProvider''
   \<and> hasMethodModel
        (factory_at
          \<lparr>used = 1,
           factory_at = (\<lambda>i. \<lparr>methodModels = [''givenProvider'' \<mapsto> LibraryMethodModel ''eth_givenProvider'' 0],
                              utils = 0, formatters = 0\<rparr>)\<rparr> 0)
        ''givenProvider''
   \<and> fst (proxyHandler
        \<lparr>used = 1,
         factory_at = (\<lambda>i. \<lparr>methodModels = [''givenProvider'' \<mapsto> LibraryMethodModel ''eth_givenProvider'' 0],
                            utils = 0, formatters = 0\<rparr>)\<rparr>
        (Client Null (Obj \<lparr>pp_id = 0, detect = Undefined, resolve = Inr\<rparr>) Undefined (Obj 7)
            (Obj 0) (Some Undefined) [] Map.empty True)
        ''givenProvider'')
     = Inr (AnonymousFunction
              \<lparr>rpcMethod = ''eth_givenProvider'', parametersAmount = 0, methodArguments = None,
               request = (''eth_givenProvider'', 0),
               built_by = LibraryMethodModel ''eth_givenProvider'' 0\<rparr>
              (''eth_givenProvider'', 0))"
  by (simp add: construct_def own_member_def hasMethodModel_def proxyHandler_def
      target_get_def createMethodModel_def)

text \<open>
  Claim C4, amended: for a name without a method model the proxy's handler returns the
  member \<^verbatim>\<open>target[name]\<close> as it is; for a name with a method model for which the object
  has a member, own or inherited, whose value \<^verbatim>\<open>target[name]\<close> is not \<^verbatim>\<open>undefined\<close>, the
  handler raises the duplicated-method error; in both cases the store of factories and
  the object are afterwards what they were.
\<close>

theorem proxyHandler_plain_member_or_duplicate:
  assumes "methodModelFactory target = Obj a"
  shows "(\<not> hasMethodModel (factory_at h a) name \<longrightarrow>
            proxyHandler h target name = (Inr (Member (target_get target name)), h, target)) \<and>
         (hasMethodModel (factory_at h a) name \<and> target_get target name \<noteq> Undefined \<longrightarrow>
            proxyHandler h target name = (Inl (DuplicatedMethod name), h, target))"
  using assms by (simp add: proxyHandler_def)

text \<open>
  An instance for C4: the factory has models \<^verbatim>\<open>extend\<close> and \<^verbatim>\<open>accounts\<close>; the object
  inherits \<^verbatim>\<open>extend\<close>, was given a member \<^verbatim>\<open>accounts\<close> from outside, and has the member
  \<^verbatim>\<open>providersPackage\<close> from the constructor.
\<close>

theorem proxyHandler_duplicate_witness:
  "fst (proxyHandler
     \<lparr>used = 1,
      factory_at = (\<lambda>i. \<lparr>methodModels = [''extend'' \<mapsto> LibraryMethodModel ''eth_extend'' 0,
                                           ''accounts'' \<mapsto> LibraryMethodModel ''eth_accounts'' 0],
                         utils = 0, formatters = 0\<rparr>)\<rparr>
     (Client Null (Obj \<lparr>pp_id = 0, detect = Null, resolve = Inr\<rparr>) Null (Obj 7) (Obj 0)
        (Some Undefined) [] [''accounts'' \<mapsto> Obj (VObject ''accounts'')] True)
     ''extend'') = Inl (DuplicatedMethod ''extend'')
   \<and>
   fst (proxyHandler
     \<lparr>used = 1,
      factory_at = (\<lambda>i. \<lparr>methodModels = [''extend'' \<mapsto> LibraryMethodModel ''eth_extend'' 0,
                                           ''accounts'' \<mapsto> LibraryMethodModel ''eth_accounts'' 0],
                         utils = 0, formatters = 0\<rparr>)\<rparr>
     (Client Null (Obj \<lparr>pp_id = 0, detect = Null, resolve = Inr\<rparr>) Null (Obj 7) (Obj 0)
        (Some Undefined) [] [''accounts'' \<mapsto> Obj (VObject ''accounts'')] True)
     ''accounts'') = Inl (DuplicatedMethod ''accounts'')
   \<and>
   fst (proxyHandler
     \<lparr>used = 1,
      factory_at = (\<lambda>i. \<lparr>methodModels = [''extend'' \<mapsto> LibraryMethodModel ''eth_extend'' 0,
                                           ''accounts'' \<mapsto> LibraryMethodModel ''eth_accounts'' 0],
                         utils = 0, formatters = 0\<rparr>)\<rparr>
     (Client Null (Obj \<lparr>pp_id = 0, detect = Null, resolve = Inr\<rparr>) Null (Obj 7) (Obj 0)
        (Some Undefined) [] [''accounts'' \<mapsto> Obj (VObject ''accounts'')] True)
     ''providersPackage'') = Inr (Member (Obj (VObject ''providersPackage'')))"
proof -
  let ?f = "\<lparr>methodModels = [''extend'' \<mapsto> LibraryMethodModel ''eth_extend'' 0,
                              ''accounts'' \<mapsto> LibraryMethodModel ''eth_accounts'' 0],
            utils = 0, formatters = 0\<rparr>"
  let ?h = "\<lparr>used = 1, factory_at = (\<lambda>i. ?f)\<rparr>"
  let ?c = "Client Null (Obj \<lparr>pp_id = 0, detect = Null, resolve = Inr\<rparr>) Null (Obj 7) (Obj 0)
        (Some Undefined) [] [''accounts'' \<mapsto> Obj (VObject ''accounts'')] True"
  have f: "methodModelFactory ?c = Obj 0" by simp
  have has: "hasMethodModel (factory_at ?h 0) ''extend''"
    "hasMethodModel (factory_at ?h 0) ''accounts''"
    "\<not> hasMethodModel (factory_at ?h 0) ''providersPackage''"
    by (simp_all add: hasMethodModel_def)
  have t: "target_get ?c ''extend'' = Obj (VObject ''extend'')"
    "target_get ?c ''accounts'' = Obj (VObject ''accounts'')"
    "target_get ?c ''providersPackage'' = Obj (VObject ''providersPackage'')"
    by (simp_all add: target_get_def prototype_members_def)
  show ?thesis
    using proxyHandler_plain_member_or_duplicate [OF f, of ?h "''extend''"] proxyHandler_plain_member_or_duplicate [OF f, of ?h "''accounts''"]
      proxyHandler_plain_member_or_duplicate [OF f, of ?h "''providersPackage''"] has t
    by simp
qed

subsection \<open>C5\<close>



subsection \<open>C6\<close>

text \<open>
  Claim C6 says that \<^verbatim>\<open>setProvider(P)\<close> on a client with extended packages A and B updates
  the parent's slot and then A's and B's. On a client the constructor builds it does
  otherwise: after construction (here with a factory that has no models) and two calls
  of \<^verbatim>\<open>extend\<close> with a name space, the list holds two packages, and \<^verbatim>\<open>setProvider\<close> with
  any value raises a TypeError in the setter of the parent (the variable holds \<^verbatim>\<open>null\<close>,
  and line 70 reads a member of it), calls no collaborator and leaves parent and packages
  as they were.
\<close>

theorem setProvider_raises_on_constructed_client:
  "\<exists>c0 h1 c1 h2 c2 A B.
      construct provider (Obj pp) mc (Obj a) brp = Inr c0 \<and>
      extend bound
        \<lparr>used = Suc a,
         factory_at = (\<lambda>i. \<lparr>methodModels = Map.empty, utils = u, formatters = fm\<rparr>)\<rparr>
        c0 \<lparr>property = Some ''a'', methods = None\<rparr> = (h1, c1, None) \<and>
      extend bound h1 c1 \<lparr>property = Some ''b'', methods = None\<rparr> = (h2, c2, None) \<and>
      extendedPackages c2 = [A, B] \<and>
      setProvider h2 c2 q = (c2, [], Some TypeError)"
  by (simp add: construct_given extend_def new_object_def this_read_def proxyHandler_def
      hasMethodModel_def new_factory_def reserved_def constructor_members_def
      prototype_members_def target_get_def currentProvider_set_def)

subsection \<open>C7\<close>

text \<open>
  Claim C7 says that the after-execution hook applies the output formatter once to a
  response that is no sequence, so that \<^verbatim>\<open>"0x5"\<close> gives \<^verbatim>\<open>5\<close>. The function of lines 178-196
  does otherwise: with any output formatter present, the response \<^verbatim>\<open>"0x5"\<close> raises a
  ReferenceError, from the read of the undeclared \<^verbatim>\<open>result\<close> on line 191.
\<close>

theorem afterExecution_scalar_raises:
  "afterExecution (method\<lparr>outputFormatter := Some format\<rparr>) (Obj (VStr ''0x5'')) = Inl ReferenceError"
  by simp

subsection \<open>C8\<close>

text \<open>
  Claim C8: a call of \<^verbatim>\<open>extend\<close> with a name space, on an object whose factory is an
  object of the store, leaves that factory as it was, whether the call returns or
  raises, so no name has a model there that had none; the object still holds that
  factory. When the call returns, the new object is appended to \<^verbatim>\<open>extendedPackages\<close>,
  its factory is another object than the parent's, and every method of the call has a
  model in it. (Nothing is said where the development makes no statement.)
\<close>

theorem extend_namespace_parent_factory_unchanged:
  assumes "namespace_of extension = Some ns"
    and "extend bound h this extension = (h', this', err)"
    and "err \<noteq> Some Unmodelled"
    and "methodModelFactory this = Obj a" and "a < used h"
  shows "factory_at h' a = factory_at h a \<and> methodModelFactory this' = Obj a \<and>
         (err = None \<longrightarrow>
            (\<exists>object a'. extendedPackages this' = extendedPackages this @ [object] \<and>
               methodModelFactory object = Obj a' \<and> a' \<noteq> a \<and>
               (\<forall>ms m. methods extension = Some ms \<and> m \<in> set ms \<longrightarrow>
                  hasMethodModel (factory_at h' a') (method_name m))))"
proof (intro conjI impI)
  show "factory_at h' a = factory_at h a"
    using extend_namespace_frame [OF assms(1,2)] assms(5) by simp
  show "methodModelFactory this' = Obj a"
    using extend_keeps_factory_member [OF assms(2)] assms(4) by simp
next
  assume ok: "err = None"
  from extend_namespace_pushed [OF assms(1,2)] ok obtain h1 object provider where
    mk: "construct provider (providersPackage this) (methodController this)
           (Obj (used h)) Undefined = Inr object"
    and em: "extend_methods bound h1 object (methods extension) = (h', None)"
    and this': "this' = add_package this ns object"
    by blast
  from construct_fields [OF mk] have f: "methodModelFactory object = Obj (used h)" by simp
  have "\<forall>ms m. methods extension = Some ms \<and> m \<in> set ms \<longrightarrow>
          hasMethodModel (factory_at h' (used h)) (method_name m)"
    using em f register_methods_registered by auto
  with f this' assms(5) show
    "\<exists>object a'. extendedPackages this' = extendedPackages this @ [object] \<and>
       methodModelFactory object = Obj a' \<and> a' \<noteq> a \<and>
       (\<forall>ms m. methods extension = Some ms \<and> m \<in> set ms \<longrightarrow>
          hasMethodModel (factory_at h' a') (method_name m))"
    by (auto simp: add_package_sel)
qed

text \<open>
  Two instances for C8: a parent whose factory has the model \<^verbatim>\<open>bar\<close> is extended by the
  name space \<^verbatim>\<open>x\<close> with one method \<^verbatim>\<open>foo\<close>, in a host that binds \<^verbatim>\<open>AbstractMethodModel\<close>
  (the call returns; \<^verbatim>\<open>foo\<close> is in the new object's factory only, \<^verbatim>\<open>bar\<close> in the parent's
  only) and in one that does not (the call raises; nothing is registered).
\<close>

theorem extend_namespace_isolation_witness:
  "(case extend True
      \<lparr>used = 1,
       factory_at = (\<lambda>i. \<lparr>methodModels = [''bar'' \<mapsto> LibraryMethodModel ''eth_bar'' 0],
                          utils = 1, formatters = 2\<rparr>)\<rparr>
      (Client Null (Obj \<lparr>pp_id = 0, detect = Null, resolve = Inr\<rparr>) Null (Obj 7) (Obj 0)
         (Some Undefined) [] Map.empty True)
      \<lparr>property = Some ''x'',
       methods = Some [\<lparr>method_name = ''foo'', method_call = ''eth_foo'', method_params = 0,
                        inputFormatters = [], outputFormatter = None\<rparr>]\<rparr>
    of (h', this', err) \<Rightarrow>
      (err, hasMethodModel (factory_at h' 0) ''foo'', hasMethodModel (factory_at h' 0) ''bar'',
       map (\<lambda>object. case methodModelFactory object of
                        Obj a' \<Rightarrow> (hasMethodModel (factory_at h' a') ''foo'',
                                   hasMethodModel (factory_at h' a') ''bar'')
                      | Null \<Rightarrow> (False, False) | Undefined \<Rightarrow> (False, False))
         (extendedPackages this')))
   = (None, False, True, [(True, False)])
   \<and>
   (case extend False
      \<lparr>used = 1,
       factory_at = (\<lambda>i. \<lparr>methodModels = [''bar'' \<mapsto> LibraryMethodModel ''eth_bar'' 0],
                          utils = 1, formatters = 2\<rparr>)\<rparr>
      (Client Null (Obj \<lparr>pp_id = 0, detect = Null, resolve = Inr\<rparr>) Null (Obj 7) (Obj 0)
         (Some Undefined) [] Map.empty True)
      \<lparr>property = Some ''x'',
       methods = Some [\<lparr>method_name = ''foo'', method_call = ''eth_foo'', method_params = 0,
                        inputFormatters = [], outputFormatter = None\<rparr>]\<rparr>
    of (h', this', err) \<Rightarrow>
      (err, hasMethodModel (factory_at h' 0) ''foo'', hasMethodModel (factory_at h' 0) ''bar'',
       map (\<lambda>object. case methodModelFactory object of
                        Obj a' \<Rightarrow> (hasMethodModel (factory_at h' a') ''foo'',
                                   hasMethodModel (factory_at h' a') ''bar'')
                      | Null \<Rightarrow> (False, False) | Undefined \<Rightarrow> (False, False))
         (extendedPackages this')))
   = (Some ReferenceError, False, True, [(False, False)])"
proof -
  let ?H = "\<lparr>used = 1,
       factory_at = (\<lambda>i. \<lparr>methodModels = [''bar'' \<mapsto> LibraryMethodModel ''eth_bar'' 0],
                          utils = 1, formatters = 2\<rparr>)\<rparr>"
  let ?P = "Client Null (Obj \<lparr>pp_id = 0, detect = Null, resolve = Inr\<rparr>) Null (Obj 7) (Obj 0)
         (Some Undefined) [] Map.empty True"
  let ?E = "\<lparr>property = Some ''x'',
       methods = Some [\<lparr>method_name = ''foo'', method_call = ''eth_foo'', method_params = 0,
                        inputFormatters = [], outputFormatter = None\<rparr>]\<rparr>"
  have ns: "namespace_of ?E = Some ''x''" by simp
  have f: "methodModelFactory ?P = Obj 0" by simp
  have al: "(0::nat) < used ?H" by simp
  have old: "\<not> hasMethodModel (factory_at ?H 0) ''foo''" "hasMethodModel (factory_at ?H 0) ''bar''"
    by (simp_all add: hasMethodModel_def)
  obtain h1 t1 e1 where r1: "extend True ?H ?P ?E = (h1, t1, e1)" by (metis prod_cases3)
  have v1: "e1 = None"
    "map (\<lambda>object. case methodModelFactory object of
                        Obj a' \<Rightarrow> (hasMethodModel (factory_at h1 a') ''foo'',
                                   hasMethodModel (factory_at h1 a') ''bar'')
                      | Null \<Rightarrow> (False, False) | Undefined \<Rightarrow> (False, False))
         (extendedPackages t1) = [(True, False)]"
    using r1 by (auto simp: extend_eval)
  have u1: "e1 \<noteq> Some Unmodelled" using v1 by simp
  from extend_namespace_parent_factory_unchanged [OF ns r1 u1 f al] have p1: "factory_at h1 0 = factory_at ?H 0" by blast
  obtain h2 t2 e2 where r2: "extend False ?H ?P ?E = (h2, t2, e2)" by (metis prod_cases3)
  have v2: "e2 = Some ReferenceError"
    "map (\<lambda>object. case methodModelFactory object of
                        Obj a' \<Rightarrow> (hasMethodModel (factory_at h2 a') ''foo'',
                                   hasMethodModel (factory_at h2 a') ''bar'')
                      | Null \<Rightarrow> (False, False) | Undefined \<Rightarrow> (False, False))
         (extendedPackages t2) = [(False, False)]"
    using r2 by (auto simp: extend_eval)
  have u2: "e2 \<noteq> Some Unmodelled" using v2 by simp
  from extend_namespace_parent_factory_unchanged [OF ns r2 u2 f al] have p2: "factory_at h2 0 = factory_at ?H 0" by blast
  show ?thesis
    unfolding r1 r2 using v1 v2 p1 p2 old by simp
qed

subsection \<open>C9\<close>



subsection \<open>C10\<close>

text \<open>
  Claim C10 says that \<^verbatim>\<open>BatchRequest()\<close> makes the batch from the client's current
  provider. The member does otherwise: on a client constructed with a batch package, in a
  host that binds no \<^verbatim>\<open>self\<close> the call raises a ReferenceError, and in a host that does,
  the batch is made from the \<^verbatim>\<open>currentProvider\<close> member of that global object, whatever
  the client holds.
\<close>

theorem BatchRequest_reads_unbound_self:
  "\<exists>c. construct provider (Obj pp) mc mmf (Obj pkg) = Inr c \<and>
       BatchRequest None c = Inl ReferenceError \<and>
       BatchRequest (Some v) c = Inr (BatchRequestOf pkg v)"
  by (simp add: construct_given BatchRequest_def)

subsection \<open>The slot in the objects the file can build\<close>

text \<open>
  X1: in every object the file can build, the variable behind \<^verbatim>\<open>currentProvider\<close> holds
  \<^verbatim>\<open>null\<close>, in the object and in every package below it, and \<^verbatim>\<open>setProvider\<close> with any
  value raises a TypeError, calls no collaborator and changes nothing.
\<close>

theorem reachable_slots_null:
  assumes "reachable c"
  shows "slots_null c \<and> currentProvider_get c = Null \<and>
         (\<forall>h q. setProvider h c q = (c, [], Some TypeError))"
  using reachable_slots [OF assms]
  by (simp add: slots_null_var setProvider_null currentProvider_get_def)

text \<open>An instance for X1: an object as the constructor returns it.\<close>

theorem reachable_slots_null_witness:
  "reachable (Client Null (Obj \<lparr>pp_id = 0, detect = Null, resolve = Inr\<rparr>) Null (Obj 7) (Obj 0)
         (Some Undefined) [] Map.empty True)
   \<and> setProvider
        \<lparr>used = 1, factory_at = (\<lambda>i. \<lparr>methodModels = Map.empty, utils = 1, formatters = 2\<rparr>)\<rparr>
        (Client Null (Obj \<lparr>pp_id = 0, detect = Null, resolve = Inr\<rparr>) Null (Obj 7) (Obj 0)
           (Some Undefined) [] Map.empty True)
        (Obj (VStr ''http://localhost:8545''))
     = (Client Null (Obj \<lparr>pp_id = 0, detect = Null, resolve = Inr\<rparr>) Null (Obj 7) (Obj 0)
          (Some Undefined) [] Map.empty True,
        [], Some TypeError)"
proof -
  let ?pp = "\<lparr>pp_id = 0, detect = Null, resolve = Inr\<rparr>"
  let ?P = "Client Null (Obj ?pp) Null (Obj 7) (Obj 0) (Some Undefined) [] Map.empty True"
  have "construct (Obj (VStr ''ws://localhost'')) (Obj ?pp) (Obj 7) (Obj 0) Undefined = Inr ?P"
    by (simp add: construct_def)
  then have r: "reachable ?P" by (rule reachable.by_construct)
  from reachable_slots_null [OF r] show ?thesis using r by simp
qed

end
